theory Spec2Isabelle
  imports Main
begin

section \<open>Python built-ins that main.py calls\<close>

text \<open>
  Strings are lists of characters. The model covers ASCII text: a character above
  127 is treated as neither whitespace nor a cased letter.

  \<open>str.strip()\<close> with no argument removes leading and trailing whitespace. For ASCII
  text Python counts as whitespace the codes 9 to 13, 28 to 31 and 32.
\<close>

definition isspace :: "char \<Rightarrow> bool" where
  "isspace c = (c \<in> set [CHR 0x09, CHR 0x0A, CHR 0x0B, CHR 0x0C, CHR 0x0D,
                          CHR 0x1C, CHR 0x1D, CHR 0x1E, CHR 0x1F, CHR 0x20])"

definition strip :: "string \<Rightarrow> string" where
  "strip s = rev (dropWhile isspace (rev (dropWhile isspace s)))"

text \<open>\<open>s.rstrip(chars)\<close>: drop trailing characters that occur in \<open>chars\<close>.\<close>

definition rstrip :: "string \<Rightarrow> string \<Rightarrow> string" where
  "rstrip s chars = rev (dropWhile (\<lambda>c. c \<in> set chars) (rev s))"

text \<open>\<open>str.lower()\<close> on ASCII text: the 26 capital letters map to their small forms.\<close>

definition lower_char :: "char \<Rightarrow> char" where
  "lower_char c =
     (case map_of (zip ''ABCDEFGHIJKLMNOPQRSTUVWXYZ'' ''abcdefghijklmnopqrstuvwxyz'') c of
        None \<Rightarrow> c
      | Some l \<Rightarrow> l)"

definition lower :: "string \<Rightarrow> string" where
  "lower s = map lower_char s"

text \<open>
  \<open>int(s)\<close> for a string, base 10: leading and trailing whitespace is skipped, then an
  optional sign, then one or more decimal digits, where a single underscore may stand
  between two digits. Anything else raises ValueError, which is the value \<open>None\<close> here.
  The whitespace that the number parsers skip on ASCII text is narrower than that of
  \<open>str.strip()\<close>: the codes 9 to 13 and 32 only, so the codes 28 to 31 around a number
  make it invalid. (The interpreter's configurable limit on the number of digits is not
  part of the model.)
\<close>

definition c_isspace :: "char \<Rightarrow> bool" where
  "c_isspace c = (c \<in> set [CHR 0x09, CHR 0x0A, CHR 0x0B, CHR 0x0C, CHR 0x0D, CHR 0x20])"

definition c_strip :: "string \<Rightarrow> string" where
  "c_strip s = rev (dropWhile c_isspace (rev (dropWhile c_isspace s)))"

definition digit_val :: "char \<Rightarrow> nat option" where
  "digit_val c = map_of (zip ''0123456789'' [0, 1, 2, 3, 4, 5, 6, 7, 8, 9]) c"

fun digits :: "string \<Rightarrow> nat \<Rightarrow> nat option" where
  "digits [] acc = Some acc"
| "digits [c] acc = (case digit_val c of None \<Rightarrow> None | Some v \<Rightarrow> Some (10 * acc + v))"
| "digits (c # d # ds) acc =
     (if c = CHR ''_'' then
        (case digit_val d of None \<Rightarrow> None | Some v \<Rightarrow> digits ds (10 * acc + v))
      else
        (case digit_val c of None \<Rightarrow> None | Some v \<Rightarrow> digits (d # ds) (10 * acc + v)))"

definition unsigned :: "string \<Rightarrow> nat option" where
  "unsigned s =
     (case s of
        [] \<Rightarrow> None
      | c # cs \<Rightarrow> (case digit_val c of None \<Rightarrow> None | Some v \<Rightarrow> digits cs v))"

definition py_int :: "string \<Rightarrow> int option" where
  "py_int s =
     (case c_strip s of
        [] \<Rightarrow> None
      | c # cs \<Rightarrow>
          if c = CHR ''-'' then map_option (\<lambda>n. - int n) (unsigned cs)
          else if c = CHR ''+'' then map_option int (unsigned cs)
          else map_option int (unsigned (c # cs)))"

text \<open>
  \<open>float(s)\<close> yields a floating-point number, which is kept abstract: the type \<open>'f\<close>
  stands for Python's floats, and a value of the record below supplies the parser
  (\<open>None\<close> for ValueError) and the float that the literal \<open>0.3\<close> denotes.
\<close>

record 'f floats =
  float :: "string \<Rightarrow> 'f option"
  lit_0_3 :: "'f"

section \<open>Configuration: the module-level assignments of main.py\<close>

text \<open>
  The environment is \<open>os.environ\<close> as it stands after \<open>load_dotenv()\<close>.
  \<open>getenv env k\<close> is \<open>os.getenv(k)\<close>, \<open>getenv_default env k d\<close> is \<open>os.getenv(k, d)\<close>, and
  \<open>py_or v d\<close> is \<open>v or d\<close> for an optional string: \<open>None\<close> and the empty string are false.
\<close>

type_synonym environ = "string \<rightharpoonup> string"

definition getenv :: "environ \<Rightarrow> string \<Rightarrow> string option" where
  "getenv env k = env k"

definition getenv_default :: "environ \<Rightarrow> string \<Rightarrow> string \<Rightarrow> string" where
  "getenv_default env k d = (case env k of None \<Rightarrow> d | Some v \<Rightarrow> v)"

definition py_or :: "string option \<Rightarrow> string \<Rightarrow> string" where
  "py_or v d = (case v of None \<Rightarrow> d | Some s \<Rightarrow> if s = [] then d else s)"

definition GOOGLE_API_KEY :: "environ \<Rightarrow> string" where
  "GOOGLE_API_KEY env = strip (getenv_default env ''GOOGLE_API_KEY'' [])"

definition MODEL_NAME :: "environ \<Rightarrow> string" where
  "MODEL_NAME env = strip (py_or (getenv env ''GOOGLE_MODEL'') ''gemini-2.0-flash'')"

definition BASE_URL :: "environ \<Rightarrow> string" where
  "BASE_URL env =
     rstrip (py_or (getenv env ''GOOGLE_OPENAI_COMPAT_BASE_URL'')
                   ''https://generativelanguage.googleapis.com/v1beta/openai'') ''/''"

definition default_system_prompt :: string where
  "default_system_prompt =
     ''You are a concise, helpful chatbot for BotCampus.ai. '' @
     ''Answer briefly, use plain English, and include code blocks when helpful.''"

definition SYSTEM_PROMPT :: "environ \<Rightarrow> string" where
  "SYSTEM_PROMPT env = py_or (getenv env ''SYSTEM_PROMPT'') default_system_prompt"

definition TEMPERATURE :: "'f floats \<Rightarrow> environ \<Rightarrow> 'f" where
  "TEMPERATURE fl env =
     (case float fl (getenv_default env ''TEMPERATURE'' ''0.3'') of
        None \<Rightarrow> lit_0_3 fl
      | Some x \<Rightarrow> x)"

definition MAX_TOKENS :: "environ \<Rightarrow> int" where
  "MAX_TOKENS env =
     (case py_int (getenv_default env ''MAX_TOKENS'' ''1024'') of
        None \<Rightarrow> 1024
      | Some n \<Rightarrow> n)"

section \<open>Exceptions, start-up and exit status\<close>

text \<open>
  \<open>SystemExit\<close> carries either a message (printed on standard error, exit status 1) or an
  integer status. Any other exception that reaches the top level is \<open>Exception\<close> with its
  description; the interpreter then ends the process with status 1.
\<close>

datatype exit_arg = Msg string | Code int

datatype exn = SystemExit exit_arg | Exception string

fun exit_status :: "exn + unit \<Rightarrow> int" where
  "exit_status (Inr _) = 0"
| "exit_status (Inl (SystemExit (Code n))) = n"
| "exit_status (Inl (SystemExit (Msg m))) = 1"
| "exit_status (Inl (Exception e)) = 1"

fun exit_message :: "exn + unit \<Rightarrow> string option" where
  "exit_message (Inl (SystemExit (Msg m))) = Some m"
| "exit_message _ = None"

text \<open>
  The module-level globals, as the record a successful start-up leaves behind.
\<close>

record 'f config =
  api_key :: string
  model_name :: string
  base_url :: string
  system_prompt :: string
  temperature :: "'f"
  max_tokens :: int

definition resolve :: "'f floats \<Rightarrow> environ \<Rightarrow> 'f config" where
  "resolve fl env =
     \<lparr>api_key = GOOGLE_API_KEY env, model_name = MODEL_NAME env, base_url = BASE_URL env,
      system_prompt = SYSTEM_PROMPT env, temperature = TEMPERATURE fl env,
      max_tokens = MAX_TOKENS env\<rparr>"

text \<open>
  Lines 23 to 58 of main.py in their order: the assignments (none of which can fail: a
  ValueError of a numeric field is caught), the check of the API key, and the import of
  the agent framework. \<open>import_error\<close> is \<open>Some e\<close> when the import raises an exception
  whose text is \<open>e\<close>.
\<close>

definition module_init :: "'f floats \<Rightarrow> string option \<Rightarrow> environ \<Rightarrow> exn + 'f config" where
  "module_init fl import_error env =
     (let cfg = resolve fl env in
      if api_key cfg = [] then
        Inl (SystemExit (Msg ''ERROR: Missing GOOGLE_API_KEY in .env''))
      else
        (case import_error of
           Some e \<Rightarrow>
             Inl (SystemExit (Msg
               (''Autogen packages not found. Did you run '' @ [CHR 0x27] @
                ''pip install -r requirements.txt'' @ [CHR 0x27] @ ''?'' @ [CHR 0x0A] @
                ''Import error: '' @ e)))
         | None \<Rightarrow> Inr cfg))"

section \<open>The agent framework and the observable effects\<close>

text \<open>
  The agent framework is external. It is a parameter of the model: a constructor of model
  clients from key, model and endpoint, a constructor of agents from name, client and
  system message, and the agent's \<open>run\<close>, which takes the agent's state and the text of a
  turn and returns the result together with the agent's new state. Each of them may
  raise (\<open>Inl\<close> with the exception's text). A result has an optional \<open>content\<close>
  attribute and a string representation \<open>str(result)\<close>.
\<close>

record result =
  content :: "string option"
  str :: string

record ('c, 'h) framework =
  OpenAIChatCompletionClient :: "string \<Rightarrow> string \<Rightarrow> string \<Rightarrow> string + 'c"
  AssistantAgent :: "string \<Rightarrow> 'c \<Rightarrow> string \<Rightarrow> string + 'h"
  run :: "'h \<Rightarrow> string \<Rightarrow> (string + result) \<times> 'h"

text \<open>
  What the process does to the outside, in order: text written to standard output, agent
  instances constructed (numbered from 0 in the order of construction), and turns
  submitted to an agent instance.
\<close>

datatype effect = Printed string | Built nat | Submitted nat string

type_synonym world = "effect list"

fun is_Built :: "effect \<Rightarrow> bool" where
  "is_Built (Built _) = True"
| "is_Built _ = False"

definition agents :: "world \<Rightarrow> nat" where
  "agents w = length (filter is_Built w)"

fun submitted :: "world \<Rightarrow> (nat \<times> string) list" where
  "submitted [] = []"
| "submitted (Submitted i s # w) = (i, s) # submitted w"
| "submitted (_ # w) = submitted w"

fun printed :: "world \<Rightarrow> string list" where
  "printed [] = []"
| "printed (Printed s # w) = s # printed w"
| "printed (_ # w) = printed w"

text \<open>\<open>print(s)\<close> writes \<open>s\<close> and a newline.\<close>

definition print :: "string \<Rightarrow> world \<Rightarrow> world" where
  "print s w = w @ [Printed (s @ [CHR 0x0A])]"

text \<open>\<open>getattr(result, "content", str(result))\<close>, the expression of lines 87 and 105.\<close>

definition reply_of :: "result \<Rightarrow> string" where
  "reply_of r = (case content r of Some c \<Rightarrow> c | None \<Rightarrow> str r)"

section \<open>Agent construction and the two modes\<close>

definition build_model_client :: "('c, 'h) framework \<Rightarrow> 'f config \<Rightarrow> string + 'c" where
  "build_model_client fw cfg =
     OpenAIChatCompletionClient fw (api_key cfg) (model_name cfg) (base_url cfg)"

definition build_assistant ::
  "('c, 'h) framework \<Rightarrow> 'f config \<Rightarrow> world \<Rightarrow> (string + nat \<times> 'h) \<times> world" where
  "build_assistant fw cfg w =
     (case build_model_client fw cfg of
        Inl e \<Rightarrow> (Inl e, w)
      | Inr model_client \<Rightarrow>
          (case AssistantAgent fw ''assistant'' model_client (system_prompt cfg) of
             Inl e \<Rightarrow> (Inl e, w)
           | Inr assistant \<Rightarrow> (Inr (agents w, assistant), w @ [Built (agents w)])))"

definition one_shot ::
  "('c, 'h) framework \<Rightarrow> 'f config \<Rightarrow> string \<Rightarrow> world \<Rightarrow> (string + string) \<times> world" where
  "one_shot fw cfg prompt w =
     (case build_assistant fw cfg w of
        (Inl e, w1) \<Rightarrow> (Inl e, w1)
      | (Inr (i, assistant), w1) \<Rightarrow>
          (case run fw assistant prompt of
             (Inl e, _) \<Rightarrow> (Inl e, w1 @ [Submitted i prompt])
           | (Inr result, _) \<Rightarrow> (Inr (reply_of result), w1 @ [Submitted i prompt])))"

text \<open>
  Standard input is a finite sequence of what successive calls of \<open>input()\<close> meet: a
  line (without its newline), the end of input, or an interrupt from the keyboard.
  Reading past the end of the sequence is the end of input. \<open>input(p)\<close> writes the
  prompt \<open>p\<close> before it reads.
\<close>

datatype stdin_event = Line string | EOFError | KeyboardInterrupt

definition input_prompt :: string where
  "input_prompt = [CHR 0x0A] @ ''You: ''"

definition exiting :: "world \<Rightarrow> world" where
  "exiting w = print ([CHR 0x0A] @ ''Exiting.'') (w @ [Printed input_prompt])"

text \<open>
  The \<open>while True\<close> loop of \<open>interactive_loop\<close>, for the agent instance number \<open>i\<close> in
  state \<open>assistant\<close>.
\<close>

fun repl ::
  "('c, 'h) framework \<Rightarrow> nat \<Rightarrow> 'h \<Rightarrow> stdin_event list \<Rightarrow> world \<Rightarrow> (exn + unit) \<times> world" where
  "repl fw i assistant [] w = (Inr (), exiting w)"
| "repl fw i assistant (EOFError # rest) w = (Inr (), exiting w)"
| "repl fw i assistant (KeyboardInterrupt # rest) w = (Inr (), exiting w)"
| "repl fw i assistant (Line l # rest) w =
     (let user_input = strip l; w1 = w @ [Printed input_prompt] in
      if lower user_input \<in> {''exit'', ''quit''} then (Inr (), print ''Goodbye.'' w1)
      else
        (case run fw assistant user_input of
           (Inl e, _) \<Rightarrow> (Inl (Exception e), w1 @ [Submitted i user_input])
         | (Inr result, assistant') \<Rightarrow>
             repl fw i assistant' rest
               (print ([CHR 0x0A] @ ''Assistant: '' @ reply_of result)
                  (w1 @ [Submitted i user_input]))))"

definition banner :: string where
  "banner = ''Interactive chat started. Type '' @ [CHR 0x27] @ ''exit'' @ [CHR 0x27] @
            '' or '' @ [CHR 0x27] @ ''quit'' @ [CHR 0x27] @ '' to leave.''"

definition interactive_loop ::
  "('c, 'h) framework \<Rightarrow> 'f config \<Rightarrow> stdin_event list \<Rightarrow> world \<Rightarrow> (exn + unit) \<times> world" where
  "interactive_loop fw cfg inp w =
     (case build_assistant fw cfg w of
        (Inl e, w1) \<Rightarrow> (Inl (Exception e), w1)
      | (Inr (i, assistant), w1) \<Rightarrow> repl fw i assistant inp (print banner w1))"

section \<open>The dispatcher\<close>

text \<open>
  \<open>args\<close> is the namespace that \<open>parser.parse_args()\<close> returns: the flag
  \<open>--interactive\<close> (false when absent) and the text of \<open>--prompt\<close> (empty when absent).
\<close>

record args =
  interactive :: bool
  prompt :: string

definition usage :: "world \<Rightarrow> world" where
  "usage w =
     print (''  python main.py --prompt '' @ [CHR 0x22] @ ''Explain RAG in simple terms.'' @ [CHR 0x22])
       (print ''  python main.py --interactive''
          (print ''Examples:''
             (print (''No mode selected.'' @ [CHR 0x0A]) w)))"

definition main ::
  "('c, 'h) framework \<Rightarrow> 'f config \<Rightarrow> args \<Rightarrow> stdin_event list \<Rightarrow> world \<Rightarrow> (exn + unit) \<times> world" where
  "main fw cfg a inp w =
     (if interactive a then interactive_loop fw cfg inp w
      else if prompt a \<noteq> [] then
        (case one_shot fw cfg (prompt a) w of
           (Inl e, w1) \<Rightarrow> (Inl (Exception e), w1)
         | (Inr reply, w1) \<Rightarrow> (Inr (), print reply w1))
      else (Inl (SystemExit (Code 1)), usage w))"

text \<open>
  One run of \<open>python main.py\<close>: the module-level code, then \<open>main()\<close>, from a world in
  which nothing has happened yet.
\<close>

definition script ::
  "'f floats \<Rightarrow> string option \<Rightarrow> ('c, 'h) framework \<Rightarrow> environ \<Rightarrow> args \<Rightarrow> stdin_event list \<Rightarrow>
   (exn + unit) \<times> world" where
  "script fl import_error fw env a inp =
     (case module_init fl import_error env of
        Inl e \<Rightarrow> (Inl e, [])
      | Inr cfg \<Rightarrow> main fw cfg a inp [])"

section \<open>The resolution rule as the specification words it\<close>

text \<open>
  The specification gives one rule for every field: the environment value trimmed of
  surrounding whitespace if present and non-empty, else the hardcoded default. This
  definition follows those words, with "non-empty" read as a test of the value as it
  stands in the environment (a whitespace-only value is non-empty and is trimmed to the
  empty string); it is compared with the code's definitions below.
\<close>

definition spec_resolve :: "environ \<Rightarrow> string \<Rightarrow> string \<Rightarrow> string" where
  "spec_resolve env k d =
     (case env k of None \<Rightarrow> d | Some v \<Rightarrow> if v = [] then d else strip v)"

section \<open>Stand-ins for the external parts, for concrete runs\<close>

text \<open>
  An agent framework whose constructors accept everything and whose agent answers a turn
  \<open>t\<close> with a result whose content is \<open>echo: t\<close>; the agent's state counts its turns.
  A second one returns results without a content attribute. \<open>tenths\<close> is a float
  parser that knows the literals \<open>0.3\<close> and \<open>0.7\<close> only, as numbers of tenths.
\<close>

definition echo_framework :: "(unit, nat) framework" where
  "echo_framework =
     \<lparr>OpenAIChatCompletionClient = (\<lambda>key model url. Inr ()),
      AssistantAgent = (\<lambda>name client msg. Inr 0),
      run = (\<lambda>n t. (Inr \<lparr>content = Some (''echo: '' @ t), str = ''TaskResult''\<rparr>, Suc n))\<rparr>"

definition bare_framework :: "(unit, nat) framework" where
  "bare_framework =
     \<lparr>OpenAIChatCompletionClient = (\<lambda>key model url. Inr ()),
      AssistantAgent = (\<lambda>name client msg. Inr 0),
      run = (\<lambda>n t. (Inr \<lparr>content = None, str = ''raw: '' @ t\<rparr>, Suc n))\<rparr>"

definition tenths :: "int floats" where
  "tenths =
     \<lparr>float = (\<lambda>s. if c_strip s = ''0.3'' then Some 3
                    else if c_strip s = ''0.7'' then Some 7 else None),
      lit_0_3 = 3\<rparr>"

definition test_config :: "int config" where
  "test_config =
     \<lparr>api_key = ''k'', model_name = ''gemini-2.0-flash'', base_url = ''https://h/openai'',
      system_prompt = default_system_prompt, temperature = 3, max_tokens = 1024\<rparr>"

section \<open>Facts about the built-ins\<close>

lemma strip_Nil: "strip [] = []"
  by (simp add: strip_def)

lemma strip_eq_Nil: "strip l = [] \<longleftrightarrow> (\<forall>c\<in>set l. isspace c)"
proof
  assume "strip l = []"
  then have all: "\<forall>c\<in>set (dropWhile isspace l). isspace c"
    by (simp add: strip_def)
  have "dropWhile isspace l = []"
  proof (rule ccontr)
    assume ne: "dropWhile isspace l \<noteq> []"
    then have "\<not> isspace (hd (dropWhile isspace l))" by (rule hd_dropWhile)
    moreover from ne have "hd (dropWhile isspace l) \<in> set (dropWhile isspace l)" by simp
    ultimately show False using all by blast
  qed
  then show "\<forall>c\<in>set l. isspace c" by simp
next
  assume "\<forall>c\<in>set l. isspace c"
  then have "dropWhile isspace l = []" by simp
  then show "strip l = []" by (simp add: strip_def del: dropWhile_eq_Nil_conv)
qed

lemmas int_eval = py_int_def c_strip_def c_isspace_def unsigned_def digit_val_def

lemmas text_eval = strip_def isspace_def lower_def lower_char_def
lemmas run_eval = main_def interactive_loop_def one_shot_def build_assistant_def
  build_model_client_def repl.simps Let_def print_def exiting_def usage_def reply_of_def
  agents_def echo_framework_def bare_framework_def test_config_def

section \<open>Facts about the effects and the loop\<close>

lemma agents_append: "agents (w @ v) = agents w + agents v"
  by (simp add: agents_def)

lemma submitted_append: "submitted (w @ v) = submitted w @ submitted v"
  by (induction w rule: submitted.induct) simp_all

lemma printed_append: "printed (w @ v) = printed w @ printed v"
  by (induction w rule: printed.induct) simp_all

lemma agents_simps:
  "agents [] = 0" "agents (Built n # w) = Suc (agents w)"
  "agents (Printed s # w) = agents w" "agents (Submitted n s # w) = agents w"
  by (simp_all add: agents_def)

lemma print_effects:
  "agents (print s w) = agents w"
  "submitted (print s w) = submitted w"
  "printed (print s w) = printed w @ [s @ [CHR 0x0A]]"
  by (simp_all add: print_def agents_append agents_simps submitted_append printed_append)

lemma repl_sentinel:
  assumes "lower (strip l) = ''exit'' \<or> lower (strip l) = ''quit''"
  shows "repl fw i h (Line l # rest) w =
           (Inr (), w @ [Printed input_prompt, Printed (''Goodbye.'' @ [CHR 0x0A])])"
  using assms by (auto simp add: Let_def print_def)

lemma repl_turn:
  assumes "lower (strip l) \<noteq> ''exit''" and "lower (strip l) \<noteq> ''quit''"
    and "run fw h (strip l) = (Inr r, h')"
  shows "repl fw i h (Line l # rest) w =
           repl fw i h' rest
             (w @ [Printed input_prompt, Submitted i (strip l),
                   Printed ([CHR 0x0A] @ ''Assistant: '' @ reply_of r @ [CHR 0x0A])])"
  using assms by (simp add: Let_def print_def)

lemma repl_raise:
  assumes "lower (strip l) \<noteq> ''exit''" and "lower (strip l) \<noteq> ''quit''"
    and "run fw h (strip l) = (Inl e, h')"
  shows "repl fw i h (Line l # rest) w =
           (Inl (Exception e), w @ [Printed input_prompt, Submitted i (strip l)])"
  using assms by (simp add: Let_def)

lemma repl_end:
  "repl fw i h [] w =
     (Inr (), w @ [Printed input_prompt, Printed ([CHR 0x0A] @ ''Exiting.'' @ [CHR 0x0A])])"
  "repl fw i h (EOFError # rest) w =
     (Inr (), w @ [Printed input_prompt, Printed ([CHR 0x0A] @ ''Exiting.'' @ [CHR 0x0A])])"
  "repl fw i h (KeyboardInterrupt # rest) w =
     (Inr (), w @ [Printed input_prompt, Printed ([CHR 0x0A] @ ''Exiting.'' @ [CHR 0x0A])])"
  by (simp_all add: exiting_def print_def)

declare repl.simps [simp del]

lemma repl_trace:
  "\<exists>tr ts. snd (repl fw i h inp w) = w @ tr \<and> agents tr = 0 \<and> submitted tr = map (Pair i) ts"
proof (induction inp arbitrary: h w)
  case Nil
  show ?case
    by (intro exI [of _ "[Printed input_prompt, Printed ([CHR 0x0A] @ ''Exiting.'' @ [CHR 0x0A])]"]
          exI [of _ "[]"])
       (simp add: repl_end agents_simps)
next
  case (Cons ev rest)
  show ?case
  proof (cases ev)
    case EOFError
    then show ?thesis
      by (intro exI [of _ "[Printed input_prompt, Printed ([CHR 0x0A] @ ''Exiting.'' @ [CHR 0x0A])]"]
            exI [of _ "[]"])
         (simp add: repl_end agents_simps)
  next
    case KeyboardInterrupt
    then show ?thesis
      by (intro exI [of _ "[Printed input_prompt, Printed ([CHR 0x0A] @ ''Exiting.'' @ [CHR 0x0A])]"]
            exI [of _ "[]"])
         (simp add: repl_end agents_simps)
  next
    case (Line l)
    show ?thesis
    proof (cases "lower (strip l) = ''exit'' \<or> lower (strip l) = ''quit''")
      case True
      then have "repl fw i h (Line l # rest) w =
          (Inr (), w @ [Printed input_prompt, Printed (''Goodbye.'' @ [CHR 0x0A])])"
        by (rule repl_sentinel)
      then show ?thesis unfolding Line
        by (intro exI [of _ "[Printed input_prompt, Printed (''Goodbye.'' @ [CHR 0x0A])]"]
              exI [of _ "[]"])
           (simp add: agents_simps)
    next
      case False
      then have ns: "lower (strip l) \<noteq> ''exit''" "lower (strip l) \<noteq> ''quit''" by simp_all
      obtain res h' where run: "run fw h (strip l) = (res, h')"
        by (cases "run fw h (strip l)")
      show ?thesis
      proof (cases res)
        case (Inl e)
        with run have "repl fw i h (Line l # rest) w =
            (Inl (Exception e), w @ [Printed input_prompt, Submitted i (strip l)])"
          by (simp add: repl_raise [OF ns])
        then show ?thesis unfolding Line
          by (intro exI [of _ "[Printed input_prompt, Submitted i (strip l)]"]
                exI [of _ "[strip l]"])
             (simp add: agents_simps)
      next
        case (Inr r)
        let ?new = "[Printed input_prompt, Submitted i (strip l),
                     Printed ([CHR 0x0A] @ ''Assistant: '' @ reply_of r @ [CHR 0x0A])]"
        from run Inr have eq: "repl fw i h (Line l # rest) w = repl fw i h' rest (w @ ?new)"
          by (simp add: repl_turn [OF ns])
        from Cons.IH [of h' "w @ ?new"]
        obtain tr ts where tr: "snd (repl fw i h' rest (w @ ?new)) = (w @ ?new) @ tr"
            "agents tr = 0" "submitted tr = map (Pair i) ts"
          by blast
        have "snd (repl fw i h (Line l # rest) w) = w @ (?new @ tr)"
          using eq tr(1) by simp
        moreover have "agents (?new @ tr) = 0"
          using tr(2) by (simp add: agents_simps)
        moreover have "submitted (?new @ tr) = map (Pair i) (strip l # ts)"
          using tr(3) by simp
        ultimately show ?thesis unfolding Line by blast
      qed
    qed
  qed
qed

lemma repl_until_end:
  assumes ok: "\<forall>h t. \<exists>r h'. run fw h t = (Inr r, h')"
    and ns: "\<forall>l \<in> set ls. lower (strip l) \<noteq> ''exit'' \<and> lower (strip l) \<noteq> ''quit''"
    and tail: "tail = [] \<or> tail = EOFError # rest \<or> tail = KeyboardInterrupt # rest"
  shows "fst (repl fw i h (map Line ls @ tail) w) = Inr () \<and>
         submitted (snd (repl fw i h (map Line ls @ tail) w)) =
           submitted w @ map (\<lambda>l. (i, strip l)) ls \<and>
         (\<exists>tr. snd (repl fw i h (map Line ls @ tail) w) =
                 tr @ [Printed input_prompt, Printed ([CHR 0x0A] @ ''Exiting.'' @ [CHR 0x0A])])"
  using ns
proof (induction ls arbitrary: h w)
  case Nil
  from tail have "repl fw i h tail w =
      (Inr (), w @ [Printed input_prompt, Printed ([CHR 0x0A] @ ''Exiting.'' @ [CHR 0x0A])])"
    by (auto simp add: repl_end)
  then show ?case by (simp add: submitted_append)
next
  case (Cons l ls)
  then have nl: "lower (strip l) \<noteq> ''exit''" "lower (strip l) \<noteq> ''quit''" by simp_all
  from ok obtain r h' where run: "run fw h (strip l) = (Inr r, h')" by blast
  let ?w = "w @ [Printed input_prompt, Submitted i (strip l),
                 Printed ([CHR 0x0A] @ ''Assistant: '' @ reply_of r @ [CHR 0x0A])]"
  have step: "repl fw i h (Line l # map Line ls @ tail) w = repl fw i h' (map Line ls @ tail) ?w"
    by (rule repl_turn [OF nl run])
  from Cons.prems have "\<forall>l \<in> set ls. lower (strip l) \<noteq> ''exit'' \<and> lower (strip l) \<noteq> ''quit''"
    by simp
  from Cons.IH [OF this, of h' ?w] show ?case
    by (simp add: step submitted_append)
qed

lemma build_assistant_ok:
  assumes "build_model_client fw cfg = Inr mc"
    and "AssistantAgent fw ''assistant'' mc (system_prompt cfg) = Inr h"
  shows "build_assistant fw cfg w = (Inr (agents w, h), w @ [Built (agents w)])"
  using assms by (simp add: build_assistant_def)

lemma build_assistant_cases:
  "(\<exists>e. build_assistant fw cfg w = (Inl e, w)) \<or>
   (\<exists>h. build_assistant fw cfg w = (Inr (agents w, h), w @ [Built (agents w)]))"
  by (simp add: build_assistant_def split: sum.splits)

lemma one_shot_ok:
  assumes "build_assistant fw cfg w = (Inr (i, h), w1)" and "run fw h p = (Inr r, h')"
  shows "one_shot fw cfg p w = (Inr (reply_of r), w1 @ [Submitted i p])"
  using assms by (simp add: one_shot_def)

lemma one_shot_Inr:
  assumes "one_shot fw cfg p w = (Inr reply, w1)"
  shows "w1 = w @ [Built (agents w), Submitted (agents w) p]"
  using assms build_assistant_cases [of fw cfg w]
  by (auto simp add: one_shot_def split: prod.splits sum.splits)

lemma agents_one_shot: "agents (snd (one_shot fw cfg p w)) \<le> agents w + 1"
  using build_assistant_cases [of fw cfg w]
  by (auto simp add: one_shot_def agents_append agents_simps split: prod.splits sum.splits)

lemma interactive_loop_ok:
  assumes "build_assistant fw cfg w = (Inr (i, h), w1)"
  shows "interactive_loop fw cfg inp w = repl fw i h inp (w1 @ [Printed (banner @ [CHR 0x0A])])"
  using assms by (simp add: interactive_loop_def print_def)

lemma agents_repl: "agents (snd (repl fw i h inp w)) = agents w"
  using repl_trace [of fw i h inp w] by (auto simp add: agents_append)

lemma agents_interactive_loop: "agents (snd (interactive_loop fw cfg inp w)) \<le> agents w + 1"
  using build_assistant_cases [of fw cfg w]
  by (auto simp add: interactive_loop_def agents_repl print_effects agents_append agents_simps)

lemma usage_effects:
  "agents (usage w) = agents w" "submitted (usage w) = submitted w"
  "printed (usage w) =
     printed w @ [''No mode selected.'' @ [CHR 0x0A, CHR 0x0A], ''Examples:'' @ [CHR 0x0A],
       ''  python main.py --interactive'' @ [CHR 0x0A],
       ''  python main.py --prompt '' @ [CHR 0x22] @ ''Explain RAG in simple terms.'' @
         [CHR 0x22, CHR 0x0A]]"
  by (simp_all add: usage_def print_effects)

lemma build_assistant_Inr:
  assumes "build_assistant fw cfg w = (Inr (i, h), w1)"
  shows "i = agents w \<and> w1 = w @ [Built (agents w)]"
  using assms by (auto simp add: build_assistant_def split: sum.splits)

lemma echo_one_shot:
  "one_shot echo_framework test_config ''hi'' [] =
     (Inr ''echo: hi'', [Built 0, Submitted 0 ''hi''])"
  by (simp add: run_eval)

lemma build_assistant_numeric_fields_unused:
  "build_assistant fw (cfg\<lparr>temperature := t, max_tokens := m\<rparr>) w = build_assistant fw cfg w"
  by (simp add: build_assistant_def build_model_client_def split: sum.splits)

lemma main_numeric_fields_unused:
  "main fw (cfg\<lparr>temperature := t, max_tokens := m\<rparr>) a inp w = main fw cfg a inp w"
  by (simp add: main_def interactive_loop_def one_shot_def
        build_assistant_numeric_fields_unused)

lemma resolve_numeric_update:
  "resolve fl (env(''TEMPERATURE'' := t, ''MAX_TOKENS'' := m)) =
     (resolve fl env)\<lparr>temperature := TEMPERATURE fl (env(''TEMPERATURE'' := t, ''MAX_TOKENS'' := m)),
                      max_tokens := MAX_TOKENS (env(''TEMPERATURE'' := t, ''MAX_TOKENS'' := m))\<rparr>"
  by (simp add: resolve_def GOOGLE_API_KEY_def MODEL_NAME_def BASE_URL_def SYSTEM_PROMPT_def
        getenv_def getenv_default_def)

lemma script_numeric_fields_unused:
  "script fl import_error fw (env(''TEMPERATURE'' := t, ''MAX_TOKENS'' := m)) a inp =
   script fl import_error fw env a inp"
proof -
  let ?env = "env(''TEMPERATURE'' := t, ''MAX_TOKENS'' := m)"
  have k: "api_key (resolve fl ?env) = api_key (resolve fl env)"
    by (simp add: resolve_numeric_update)
  show ?thesis
  proof (cases "api_key (resolve fl env) = [] \<or> import_error \<noteq> None")
    case True
    then show ?thesis using k by (auto simp add: script_def module_init_def Let_def)
  next
    case False
    then have "module_init fl import_error env = Inr (resolve fl env)"
      "module_init fl import_error ?env = Inr (resolve fl ?env)"
      using k by (auto simp add: module_init_def Let_def)
    then show ?thesis
      by (simp add: script_def resolve_numeric_update main_numeric_fields_unused)
  qed
qed

section \<open>Start-up\<close>

text \<open>
  C1. When the API key variable is missing, empty, or empty after trimming, start-up
  fails: the run ends with exit status 1 (not zero) and the message
  \<open>ERROR: Missing GOOGLE_API_KEY in .env\<close>, which names the variable, whatever the
  framework, the import's outcome, the arguments and the input are; and nothing has
  happened by then: no agent was built, nothing was printed, no turn was submitted, so
  no mode was dispatched.
\<close>

theorem missing_api_key_stops_startup:
  assumes "env ''GOOGLE_API_KEY'' = None \<or> env ''GOOGLE_API_KEY'' = Some [] \<or>
           (\<exists>v. env ''GOOGLE_API_KEY'' = Some v \<and> strip v = [])"
  shows "script fl import_error fw env a inp =
           (Inl (SystemExit (Msg (''ERROR: Missing '' @ ''GOOGLE_API_KEY'' @ '' in .env''))), []) \<and>
         exit_status (fst (script fl import_error fw env a inp)) = 1 \<and>
         exit_message (fst (script fl import_error fw env a inp)) =
           Some (''ERROR: Missing '' @ ''GOOGLE_API_KEY'' @ '' in .env'') \<and>
         agents (snd (script fl import_error fw env a inp)) = 0 \<and>
         printed (snd (script fl import_error fw env a inp)) = [] \<and>
         submitted (snd (script fl import_error fw env a inp)) = []"
proof -
  from assms have "GOOGLE_API_KEY env = []"
    by (auto simp add: GOOGLE_API_KEY_def getenv_default_def strip_Nil)
  then have "module_init fl import_error env =
      Inl (SystemExit (Msg ''ERROR: Missing GOOGLE_API_KEY in .env''))"
    by (simp add: module_init_def resolve_def)
  then have "script fl import_error fw env a inp =
      (Inl (SystemExit (Msg ''ERROR: Missing GOOGLE_API_KEY in .env'')), [])"
    by (simp add: script_def)
  then show ?thesis by (simp add: agents_def)
qed

theorem missing_api_key_stops_startup_witness:
  "script tenths None echo_framework (map_of [(''GOOGLE_API_KEY'', ''   '')])
      \<lparr>interactive = True, prompt = ''hi''\<rparr> [Line ''hello''] =
     (Inl (SystemExit (Msg ''ERROR: Missing GOOGLE_API_KEY in .env'')), []) \<and>
   script tenths None echo_framework (map_of [])
      \<lparr>interactive = False, prompt = ''hi''\<rparr> [] =
     (Inl (SystemExit (Msg ''ERROR: Missing GOOGLE_API_KEY in .env'')), [])"
proof -
  have s: "strip ''   '' = []" by (simp add: strip_def isspace_def)
  have h1: "map_of [(''GOOGLE_API_KEY'', ''   '')] ''GOOGLE_API_KEY'' = None \<or>
        map_of [(''GOOGLE_API_KEY'', ''   '')] ''GOOGLE_API_KEY'' = Some [] \<or>
        (\<exists>v. map_of [(''GOOGLE_API_KEY'', ''   '')] ''GOOGLE_API_KEY'' = Some v \<and> strip v = [])"
    using s by simp
  have h2: "map_of ([] :: (string \<times> string) list) ''GOOGLE_API_KEY'' = None \<or>
        map_of ([] :: (string \<times> string) list) ''GOOGLE_API_KEY'' = Some [] \<or>
        (\<exists>v. map_of ([] :: (string \<times> string) list) ''GOOGLE_API_KEY'' = Some v \<and> strip v = [])"
    by simp
  show ?thesis
    using h1 h2
      missing_api_key_stops_startup [where env = "map_of [(''GOOGLE_API_KEY'', ''   '')]"
        and fl = tenths and import_error = None and fw = echo_framework
        and a = "\<lparr>interactive = True, prompt = ''hi''\<rparr>" and inp = "[Line ''hello'']"]
      missing_api_key_stops_startup [where env = "map_of []"
        and fl = tenths and import_error = None and fw = echo_framework
        and a = "\<lparr>interactive = False, prompt = ''hi''\<rparr>" and inp = "[]"]
    by simp
qed

section \<open>Mode selection\<close>

text \<open>
  C2. \<open>main\<close> does exactly one of three things, chosen in this order. With the
  interactive flag set it is the interactive loop, whatever the prompt text is
  (replacing the prompt changes nothing). Otherwise, with a non-empty prompt, it is
  one-shot mode on that prompt: when \<open>one_shot\<close> returns a reply, one agent has been
  built, the prompt is the one turn submitted, the reply is printed and the exit status
  is 0 (when the agent call raises, the exception ends the run instead). Otherwise the
  usage text is printed, the exit status is 1, and no agent is built and no turn
  submitted. In every case at most one agent is built, so two modes never run.
\<close>

theorem dispatch_runs_one_mode:
  "(interactive a \<longrightarrow>
      main fw cfg a inp w = interactive_loop fw cfg inp w \<and>
      main fw cfg (a\<lparr>prompt := p\<rparr>) inp w = main fw cfg a inp w) \<and>
   (\<not> interactive a \<and> prompt a \<noteq> [] \<longrightarrow>
      (\<forall>reply w1. one_shot fw cfg (prompt a) w = (Inr reply, w1) \<longrightarrow>
         main fw cfg a inp w = (Inr (), w1 @ [Printed (reply @ [CHR 0x0A])]) \<and>
         exit_status (fst (main fw cfg a inp w)) = 0 \<and>
         agents (snd (main fw cfg a inp w)) = agents w + 1 \<and>
         submitted (snd (main fw cfg a inp w)) = submitted w @ [(agents w, prompt a)] \<and>
         printed (snd (main fw cfg a inp w)) = printed w @ [reply @ [CHR 0x0A]]) \<and>
      (\<forall>e w1. one_shot fw cfg (prompt a) w = (Inl e, w1) \<longrightarrow>
         main fw cfg a inp w = (Inl (Exception e), w1))) \<and>
   (\<not> interactive a \<and> prompt a = [] \<longrightarrow>
      main fw cfg a inp w = (Inl (SystemExit (Code 1)), usage w) \<and>
      exit_status (fst (main fw cfg a inp w)) = 1 \<and>
      agents (snd (main fw cfg a inp w)) = agents w \<and>
      submitted (snd (main fw cfg a inp w)) = submitted w \<and>
      printed (snd (main fw cfg a inp w)) =
        printed w @ [''No mode selected.'' @ [CHR 0x0A, CHR 0x0A], ''Examples:'' @ [CHR 0x0A],
          ''  python main.py --interactive'' @ [CHR 0x0A],
          ''  python main.py --prompt '' @ [CHR 0x22] @ ''Explain RAG in simple terms.'' @
            [CHR 0x22, CHR 0x0A]]) \<and>
   agents (snd (main fw cfg a inp w)) \<le> agents w + 1"
proof (intro conjI impI allI)
  assume "interactive a"
  then show "main fw cfg a inp w = interactive_loop fw cfg inp w"
    and "main fw cfg (a\<lparr>prompt := p\<rparr>) inp w = main fw cfg a inp w"
    by (simp_all add: main_def)
next
  fix reply w1
  assume a: "\<not> interactive a \<and> prompt a \<noteq> []"
    and os: "one_shot fw cfg (prompt a) w = (Inr reply, w1)"
  from a os show m: "main fw cfg a inp w = (Inr (), w1 @ [Printed (reply @ [CHR 0x0A])])"
    by (simp add: main_def print_def)
  have w1: "w1 = w @ [Built (agents w), Submitted (agents w) (prompt a)]"
    using os by (rule one_shot_Inr)
  show "exit_status (fst (main fw cfg a inp w)) = 0" by (simp add: m)
  show "agents (snd (main fw cfg a inp w)) = agents w + 1"
    by (simp add: m w1 agents_append agents_simps)
  show "submitted (snd (main fw cfg a inp w)) = submitted w @ [(agents w, prompt a)]"
    by (simp add: m w1 submitted_append)
  show "printed (snd (main fw cfg a inp w)) = printed w @ [reply @ [CHR 0x0A]]"
    by (simp add: m w1 printed_append)
next
  fix e w1
  assume "\<not> interactive a \<and> prompt a \<noteq> []" and "one_shot fw cfg (prompt a) w = (Inl e, w1)"
  then show "main fw cfg a inp w = (Inl (Exception e), w1)"
    by (simp add: main_def)
next
  assume a: "\<not> interactive a \<and> prompt a = []"
  then show m: "main fw cfg a inp w = (Inl (SystemExit (Code 1)), usage w)"
    by (simp add: main_def)
  show "exit_status (fst (main fw cfg a inp w)) = 1" by (simp add: m)
  show "agents (snd (main fw cfg a inp w)) = agents w" by (simp add: m usage_effects)
  show "submitted (snd (main fw cfg a inp w)) = submitted w" by (simp add: m usage_effects)
  show "printed (snd (main fw cfg a inp w)) =
        printed w @ [''No mode selected.'' @ [CHR 0x0A, CHR 0x0A], ''Examples:'' @ [CHR 0x0A],
          ''  python main.py --interactive'' @ [CHR 0x0A],
          ''  python main.py --prompt '' @ [CHR 0x22] @ ''Explain RAG in simple terms.'' @
            [CHR 0x22, CHR 0x0A]]"
    by (simp add: m usage_effects)
next
  show "agents (snd (main fw cfg a inp w)) \<le> agents w + 1"
  proof (cases "interactive a")
    case True
    then show ?thesis using agents_interactive_loop [of fw cfg inp w] by (simp add: main_def)
  next
    case False
    show ?thesis
    proof (cases "prompt a = []")
      case True
      with False show ?thesis by (simp add: main_def usage_effects)
    next
      case ne: False
      obtain res w1 where os: "one_shot fw cfg (prompt a) w = (res, w1)"
        by (cases "one_shot fw cfg (prompt a) w")
      with agents_one_shot [of fw cfg "prompt a" w] have "agents w1 \<le> agents w + 1" by simp
      with False ne os show ?thesis
        by (cases res) (simp_all add: main_def print_effects)
    qed
  qed
qed

theorem dispatch_runs_one_mode_witness:
  "main echo_framework test_config \<lparr>interactive = True, prompt = ''hi''\<rparr> [Line ''quit''] [] =
     interactive_loop echo_framework test_config [Line ''quit''] [] \<and>
   main echo_framework test_config \<lparr>interactive = True, prompt = ''other''\<rparr> [Line ''quit''] [] =
     main echo_framework test_config \<lparr>interactive = True, prompt = ''hi''\<rparr> [Line ''quit''] [] \<and>
   main echo_framework test_config \<lparr>interactive = False, prompt = ''hi''\<rparr> [Line ''quit''] [] =
     (Inr (), [Built 0, Submitted 0 ''hi'', Printed (''echo: hi'' @ [CHR 0x0A])]) \<and>
   exit_status (fst (main echo_framework test_config \<lparr>interactive = False, prompt = ''hi''\<rparr>
     [Line ''quit''] [])) = 0 \<and>
   main echo_framework test_config \<lparr>interactive = False, prompt = []\<rparr> [Line ''quit''] [] =
     (Inl (SystemExit (Code 1)), usage []) \<and>
   exit_status (fst (main echo_framework test_config \<lparr>interactive = False, prompt = []\<rparr>
     [Line ''quit''] [])) = 1"
  using echo_one_shot
    dispatch_runs_one_mode [of "\<lparr>interactive = True, prompt = ''hi''\<rparr>" echo_framework
      test_config "[Line ''quit'']" "[]" "''other''"]
    dispatch_runs_one_mode [of "\<lparr>interactive = False, prompt = ''hi''\<rparr>" echo_framework
      test_config "[Line ''quit'']" "[]" "''other''"]
    dispatch_runs_one_mode [of "\<lparr>interactive = False, prompt = []\<rparr>" echo_framework
      test_config "[Line ''quit'']" "[]" "''other''"]
  by simp

section \<open>The numeric fields\<close>

text \<open>
  C3. A value of the temperature variable that \<open>float\<close> rejects gives the default
  0.3, and a value of the max-tokens variable that \<open>int\<close> rejects gives the default
  1024; a value that parses gives the parsed number. Start-up does not fail for it: with
  a key and a successful import the module initialises with these values. And nothing
  shows it to the user: the whole run (exit status, message and effects) is the same
  whatever the two variables hold.
\<close>

theorem numeric_fields_fall_back:
  "(\<forall>v. env ''TEMPERATURE'' = Some v \<and> float fl v = None \<longrightarrow>
        TEMPERATURE fl env = lit_0_3 fl) \<and>
   (\<forall>v x. env ''TEMPERATURE'' = Some v \<and> float fl v = Some x \<longrightarrow> TEMPERATURE fl env = x) \<and>
   (\<forall>v. env ''MAX_TOKENS'' = Some v \<and> py_int v = None \<longrightarrow> MAX_TOKENS env = 1024) \<and>
   (\<forall>v n. env ''MAX_TOKENS'' = Some v \<and> py_int v = Some n \<longrightarrow> MAX_TOKENS env = n) \<and>
   (GOOGLE_API_KEY env \<noteq> [] \<and> import_error = None \<longrightarrow>
      module_init fl import_error env = Inr (resolve fl env) \<and>
      temperature (resolve fl env) = TEMPERATURE fl env \<and>
      max_tokens (resolve fl env) = MAX_TOKENS env) \<and>
   script fl import_error fw (env(''TEMPERATURE'' := t, ''MAX_TOKENS'' := m)) a inp =
     script fl import_error fw env a inp"
proof (intro conjI allI impI)
  fix v assume "env ''TEMPERATURE'' = Some v \<and> float fl v = None"
  then show "TEMPERATURE fl env = lit_0_3 fl"
    by (simp add: TEMPERATURE_def getenv_default_def)
next
  fix v x assume "env ''TEMPERATURE'' = Some v \<and> float fl v = Some x"
  then show "TEMPERATURE fl env = x"
    by (simp add: TEMPERATURE_def getenv_default_def)
next
  fix v assume "env ''MAX_TOKENS'' = Some v \<and> py_int v = None"
  then show "MAX_TOKENS env = 1024"
    by (simp add: MAX_TOKENS_def getenv_default_def)
next
  fix v n assume "env ''MAX_TOKENS'' = Some v \<and> py_int v = Some n"
  then show "MAX_TOKENS env = n"
    by (simp add: MAX_TOKENS_def getenv_default_def)
next
  assume "GOOGLE_API_KEY env \<noteq> [] \<and> import_error = None"
  then show "module_init fl import_error env = Inr (resolve fl env)"
    by (simp add: module_init_def resolve_def)
next
  show "temperature (resolve fl env) = TEMPERATURE fl env"
    "max_tokens (resolve fl env) = MAX_TOKENS env"
    by (simp_all add: resolve_def)
next
  show "script fl import_error fw (env(''TEMPERATURE'' := t, ''MAX_TOKENS'' := m)) a inp =
     script fl import_error fw env a inp"
    by (rule script_numeric_fields_unused)
qed

theorem numeric_fields_fall_back_witness:
  "TEMPERATURE tenths (map_of [(''GOOGLE_API_KEY'', ''k''), (''TEMPERATURE'', ''warm''),
      (''MAX_TOKENS'', ''lots'')]) = 3 \<and>
   MAX_TOKENS (map_of [(''GOOGLE_API_KEY'', ''k''), (''TEMPERATURE'', ''warm''),
      (''MAX_TOKENS'', ''lots'')]) = 1024 \<and>
   module_init tenths None (map_of [(''GOOGLE_API_KEY'', ''k''), (''TEMPERATURE'', ''warm''),
      (''MAX_TOKENS'', ''lots'')]) =
     Inr (resolve tenths (map_of [(''GOOGLE_API_KEY'', ''k''), (''TEMPERATURE'', ''warm''),
      (''MAX_TOKENS'', ''lots'')])) \<and>
   TEMPERATURE tenths (map_of [(''TEMPERATURE'', ''0.7''), (''MAX_TOKENS'', ''256'')]) = 7 \<and>
   MAX_TOKENS (map_of [(''TEMPERATURE'', ''0.7''), (''MAX_TOKENS'', ''256'')]) = 256 \<and>
   MAX_TOKENS (map_of [(''MAX_TOKENS'', [CHR 0x1C, CHR ''5'', CHR 0x1F])]) = 1024"
proof -
  have f: "float tenths ''warm'' = None" "float tenths ''0.7'' = Some 7" "lit_0_3 tenths = 3"
    by (simp_all add: tenths_def c_strip_def c_isspace_def)
  have i: "py_int ''lots'' = None" "py_int ''256'' = Some 256"
    "py_int [CHR 0x1C, CHR ''5'', CHR 0x1F] = None"
    by (simp_all add: int_eval)
  have k: "GOOGLE_API_KEY (map_of [(''GOOGLE_API_KEY'', ''k''), (''TEMPERATURE'', ''warm''),
      (''MAX_TOKENS'', ''lots'')]) \<noteq> []"
    by (simp add: GOOGLE_API_KEY_def getenv_default_def text_eval)
  show ?thesis
    using f i k
      numeric_fields_fall_back [of "map_of [(''GOOGLE_API_KEY'', ''k''), (''TEMPERATURE'', ''warm''),
        (''MAX_TOKENS'', ''lots'')]" tenths None echo_framework None None
        "\<lparr>interactive = False, prompt = []\<rparr>" "[]"]
      numeric_fields_fall_back [of "map_of [(''TEMPERATURE'', ''0.7''), (''MAX_TOKENS'', ''256'')]"
        tenths None echo_framework None None "\<lparr>interactive = False, prompt = []\<rparr>" "[]"]
      numeric_fields_fall_back [of "map_of [(''MAX_TOKENS'', [CHR 0x1C, CHR ''5'', CHR 0x1F])]"
        tenths None echo_framework None None "\<lparr>interactive = False, prompt = []\<rparr>" "[]"]
    by simp
qed

section \<open>The interactive loop\<close>

text \<open>
  C4. A line whose trimmed, lower-cased form is \<open>exit\<close> or \<open>quit\<close> makes the loop print
  \<open>Goodbye.\<close> and return normally without submitting the line, at any point of the
  session. For the input \<open>hello\<close>, \<open>exit\<close> (and likewise \<open>hello\<close>, \<open>quit\<close>), with an agent
  that answers \<open>hello\<close>, the session is: one agent built, the banner, one turn
  \<open>hello\<close> submitted, its reply printed, then the farewell.
\<close>

theorem sentinel_ends_loop:
  "(lower (strip l) = ''exit'' \<or> lower (strip l) = ''quit'' \<longrightarrow>
      repl fw i h (Line l # rest) w =
        (Inr (), w @ [Printed input_prompt, Printed (''Goodbye.'' @ [CHR 0x0A])]) \<and>
      submitted (snd (repl fw i h (Line l # rest) w)) = submitted w \<and>
      exit_status (fst (repl fw i h (Line l # rest) w)) = 0) \<and>
   (\<forall>s mc h0 r h1.
      (s = ''exit'' \<or> s = ''quit'') \<and>
      build_model_client fw cfg = Inr mc \<and>
      AssistantAgent fw ''assistant'' mc (system_prompt cfg) = Inr h0 \<and>
      run fw h0 ''hello'' = (Inr r, h1) \<longrightarrow>
      interactive_loop fw cfg [Line ''hello'', Line s] [] =
        (Inr (),
         [Built 0, Printed (banner @ [CHR 0x0A]),
          Printed input_prompt, Submitted 0 ''hello'',
          Printed ([CHR 0x0A] @ ''Assistant: '' @ reply_of r @ [CHR 0x0A]),
          Printed input_prompt, Printed (''Goodbye.'' @ [CHR 0x0A])]))"
proof (intro conjI impI allI)
  assume s: "lower (strip l) = ''exit'' \<or> lower (strip l) = ''quit''"
  then show r: "repl fw i h (Line l # rest) w =
        (Inr (), w @ [Printed input_prompt, Printed (''Goodbye.'' @ [CHR 0x0A])])"
    by (rule repl_sentinel)
  show "submitted (snd (repl fw i h (Line l # rest) w)) = submitted w"
    by (simp add: r submitted_append)
  show "exit_status (fst (repl fw i h (Line l # rest) w)) = 0"
    by (simp add: r)
next
  fix s mc h0 r h1
  assume a: "(s = ''exit'' \<or> s = ''quit'') \<and>
      build_model_client fw cfg = Inr mc \<and>
      AssistantAgent fw ''assistant'' mc (system_prompt cfg) = Inr h0 \<and>
      run fw h0 ''hello'' = (Inr r, h1)"
  then have b: "build_assistant fw cfg [] = (Inr (0, h0), [Built 0])"
    by (simp add: build_assistant_ok agents_simps)
  have hello: "strip ''hello'' = ''hello''" "lower ''hello'' = ''hello''"
    by (simp_all add: text_eval)
  from a have "strip s = s \<and> lower s = s" by (auto simp add: text_eval)
  then have sent: "lower (strip s) = ''exit'' \<or> lower (strip s) = ''quit''" using a by simp
  have "interactive_loop fw cfg [Line ''hello'', Line s] [] =
      repl fw 0 h0 [Line ''hello'', Line s] [Built 0, Printed (banner @ [CHR 0x0A])]"
    using interactive_loop_ok [OF b] by simp
  also have "\<dots> = repl fw 0 h1 [Line s]
      ([Built 0, Printed (banner @ [CHR 0x0A])] @
       [Printed input_prompt, Submitted 0 (strip ''hello''),
        Printed ([CHR 0x0A] @ ''Assistant: '' @ reply_of r @ [CHR 0x0A])])"
    using a by (intro repl_turn) (simp_all add: hello)
  also have "\<dots> = (Inr (),
      ([Built 0, Printed (banner @ [CHR 0x0A])] @
       [Printed input_prompt, Submitted 0 (strip ''hello''),
        Printed ([CHR 0x0A] @ ''Assistant: '' @ reply_of r @ [CHR 0x0A])]) @
      [Printed input_prompt, Printed (''Goodbye.'' @ [CHR 0x0A])])"
    using sent by (rule repl_sentinel)
  finally show "interactive_loop fw cfg [Line ''hello'', Line s] [] =
        (Inr (),
         [Built 0, Printed (banner @ [CHR 0x0A]),
          Printed input_prompt, Submitted 0 ''hello'',
          Printed ([CHR 0x0A] @ ''Assistant: '' @ reply_of r @ [CHR 0x0A]),
          Printed input_prompt, Printed (''Goodbye.'' @ [CHR 0x0A])])"
    by (simp add: hello)
qed

theorem sentinel_ends_loop_witness:
  "repl echo_framework 0 0 [Line ''  QuIt '', Line ''more''] [] =
     (Inr (), [Printed input_prompt, Printed (''Goodbye.'' @ [CHR 0x0A])]) \<and>
   interactive_loop echo_framework test_config [Line ''hello'', Line ''exit''] [] =
     (Inr (),
      [Built 0, Printed (banner @ [CHR 0x0A]),
       Printed input_prompt, Submitted 0 ''hello'',
       Printed ([CHR 0x0A] @ ''Assistant: echo: hello'' @ [CHR 0x0A]),
       Printed input_prompt, Printed (''Goodbye.'' @ [CHR 0x0A])]) \<and>
   interactive_loop echo_framework test_config [Line ''hello'', Line ''quit''] [] =
     interactive_loop echo_framework test_config [Line ''hello'', Line ''exit''] []"
proof -
  have q: "lower (strip ''  QuIt '') = ''quit''" by (simp add: text_eval)
  have b: "build_model_client echo_framework test_config = Inr ()"
    "AssistantAgent echo_framework ''assistant'' () (system_prompt test_config) = Inr 0"
    "run echo_framework 0 ''hello'' =
       (Inr \<lparr>content = Some ''echo: hello'', str = ''TaskResult''\<rparr>, 1)"
    by (simp_all add: build_model_client_def echo_framework_def)
  have r: "reply_of \<lparr>content = Some ''echo: hello'', str = ''TaskResult''\<rparr> = ''echo: hello''"
    by (simp add: reply_of_def)
  show ?thesis
    using q b r
      sentinel_ends_loop [of "''  QuIt ''" echo_framework 0 0 "[Line ''more'']" "[]" test_config]
    by simp
qed

text \<open>
  C5. The reply is the result's \<open>content\<close> when the result has one and \<open>str(result)\<close>
  otherwise, and both modes use this one rule: one-shot mode returns and prints
  \<open>reply_of result\<close>, and the loop prints \<open>Assistant:\<close> followed by
  \<open>reply_of result\<close>.
\<close>

theorem reply_is_content_or_str:
  "(\<forall>c. content r = Some c \<longrightarrow> reply_of r = c) \<and>
   (content r = None \<longrightarrow> reply_of r = str r) \<and>
   (p \<noteq> [] \<and> build_assistant fw cfg w = (Inr (i, h), w1) \<and> run fw h p = (Inr r, h') \<longrightarrow>
      one_shot fw cfg p w = (Inr (reply_of r), w1 @ [Submitted i p]) \<and>
      main fw cfg \<lparr>interactive = False, prompt = p\<rparr> inp w =
        (Inr (), w1 @ [Submitted i p, Printed (reply_of r @ [CHR 0x0A])])) \<and>
   (lower (strip l) \<noteq> ''exit'' \<and> lower (strip l) \<noteq> ''quit'' \<and>
    run fw h (strip l) = (Inr r, h') \<longrightarrow>
      repl fw i h (Line l # rest) w =
        repl fw i h' rest
          (w @ [Printed input_prompt, Submitted i (strip l),
                Printed ([CHR 0x0A] @ ''Assistant: '' @ reply_of r @ [CHR 0x0A])]))"
proof (intro conjI impI allI)
  fix c assume "content r = Some c"
  then show "reply_of r = c" by (simp add: reply_of_def)
next
  assume "content r = None"
  then show "reply_of r = str r" by (simp add: reply_of_def)
next
  assume a: "p \<noteq> [] \<and> build_assistant fw cfg w = (Inr (i, h), w1) \<and> run fw h p = (Inr r, h')"
  then show os: "one_shot fw cfg p w = (Inr (reply_of r), w1 @ [Submitted i p])"
    by (simp add: one_shot_ok)
  from a show "main fw cfg \<lparr>interactive = False, prompt = p\<rparr> inp w =
        (Inr (), w1 @ [Submitted i p, Printed (reply_of r @ [CHR 0x0A])])"
    by (simp add: main_def os print_def)
next
  assume "lower (strip l) \<noteq> ''exit'' \<and> lower (strip l) \<noteq> ''quit'' \<and>
    run fw h (strip l) = (Inr r, h')"
  then show "repl fw i h (Line l # rest) w =
        repl fw i h' rest
          (w @ [Printed input_prompt, Submitted i (strip l),
                Printed ([CHR 0x0A] @ ''Assistant: '' @ reply_of r @ [CHR 0x0A])])"
    by (simp add: repl_turn)
qed

theorem reply_is_content_or_str_witness:
  "reply_of \<lparr>content = Some ''echo: hi'', str = ''TaskResult''\<rparr> = ''echo: hi'' \<and>
   reply_of \<lparr>content = None, str = ''raw: hi''\<rparr> = ''raw: hi'' \<and>
   main echo_framework test_config \<lparr>interactive = False, prompt = ''hi''\<rparr> [] [] =
     (Inr (), [Built 0, Submitted 0 ''hi'', Printed (''echo: hi'' @ [CHR 0x0A])]) \<and>
   main bare_framework test_config \<lparr>interactive = False, prompt = ''hi''\<rparr> [] [] =
     (Inr (), [Built 0, Submitted 0 ''hi'', Printed (''raw: hi'' @ [CHR 0x0A])]) \<and>
   repl echo_framework 0 0 [Line '' hi ''] [] =
     (Inr (), [Printed input_prompt, Submitted 0 ''hi'',
               Printed ([CHR 0x0A] @ ''Assistant: echo: hi'' @ [CHR 0x0A]),
               Printed input_prompt, Printed ([CHR 0x0A] @ ''Exiting.'' @ [CHR 0x0A])]) \<and>
   repl bare_framework 0 0 [Line '' hi ''] [] =
     (Inr (), [Printed input_prompt, Submitted 0 ''hi'',
               Printed ([CHR 0x0A] @ ''Assistant: raw: hi'' @ [CHR 0x0A]),
               Printed input_prompt, Printed ([CHR 0x0A] @ ''Exiting.'' @ [CHR 0x0A])])"
proof -
  have t: "strip '' hi '' = ''hi''" "lower ''hi'' = ''hi''" by (simp_all add: text_eval)
  have e: "build_assistant echo_framework test_config [] = (Inr (0, 0), [Built 0])"
    "run echo_framework 0 ''hi'' =
       (Inr \<lparr>content = Some ''echo: hi'', str = ''TaskResult''\<rparr>, 1)"
    by (simp_all add: build_assistant_def build_model_client_def echo_framework_def agents_def)
  have b: "build_assistant bare_framework test_config [] = (Inr (0, 0), [Built 0])"
    "run bare_framework 0 ''hi'' = (Inr \<lparr>content = None, str = ''raw: hi''\<rparr>, 1)"
    by (simp_all add: build_assistant_def build_model_client_def bare_framework_def agents_def)
  show ?thesis
    using t e b
      reply_is_content_or_str [of "\<lparr>content = Some ''echo: hi'', str = ''TaskResult''\<rparr>"
        "''hi''" echo_framework test_config "[]" 0 0 "[Built 0]" 1 "[]" "'' hi ''" "[]"]
      reply_is_content_or_str [of "\<lparr>content = None, str = ''raw: hi''\<rparr>"
        "''hi''" bare_framework test_config "[]" 0 0 "[Built 0]" 1 "[]" "'' hi ''" "[]"]
    by (simp add: repl_end)
qed

text \<open>
  C6. When \<open>input()\<close> meets the end of input or a keyboard interrupt, at any point of
  the session, the loop prints \<open>Exiting.\<close> and returns normally, and no further turn is
  submitted. For the whole mode: after any number of ordinary lines, none of them a
  sentinel, answered by an agent that does not raise, the end of input or an interrupt
  ends the run with exit status 0; the turns submitted are exactly those lines, and
  nothing that follows the interrupt is read.
\<close>

theorem end_of_input_ends_loop:
  "(ev = EOFError \<or> ev = KeyboardInterrupt \<longrightarrow>
      repl fw i h (ev # rest) w =
        (Inr (), w @ [Printed input_prompt, Printed ([CHR 0x0A] @ ''Exiting.'' @ [CHR 0x0A])]) \<and>
      exit_status (fst (repl fw i h (ev # rest) w)) = 0 \<and>
      submitted (snd (repl fw i h (ev # rest) w)) = submitted w) \<and>
   repl fw i h [] w =
     (Inr (), w @ [Printed input_prompt, Printed ([CHR 0x0A] @ ''Exiting.'' @ [CHR 0x0A])]) \<and>
   (interactive a \<and> build_assistant fw cfg w = (Inr (i, h), w1) \<and>
    (\<forall>h t. \<exists>r h'. run fw h t = (Inr r, h')) \<and>
    (\<forall>l \<in> set ls. lower (strip l) \<noteq> ''exit'' \<and> lower (strip l) \<noteq> ''quit'') \<and>
    (tail = [] \<or> tail = EOFError # rest \<or> tail = KeyboardInterrupt # rest) \<longrightarrow>
      fst (main fw cfg a (map Line ls @ tail) w) = Inr () \<and>
      exit_status (fst (main fw cfg a (map Line ls @ tail) w)) = 0 \<and>
      submitted (snd (main fw cfg a (map Line ls @ tail) w)) =
        submitted w @ map (\<lambda>l. (i, strip l)) ls \<and>
      (\<exists>tr. snd (main fw cfg a (map Line ls @ tail) w) =
              tr @ [Printed input_prompt, Printed ([CHR 0x0A] @ ''Exiting.'' @ [CHR 0x0A])]))"
proof (intro conjI impI)
  assume "ev = EOFError \<or> ev = KeyboardInterrupt"
  then show r: "repl fw i h (ev # rest) w =
        (Inr (), w @ [Printed input_prompt, Printed ([CHR 0x0A] @ ''Exiting.'' @ [CHR 0x0A])])"
    by (auto simp add: repl_end)
  show "exit_status (fst (repl fw i h (ev # rest) w)) = 0" by (simp add: r)
  show "submitted (snd (repl fw i h (ev # rest) w)) = submitted w"
    by (simp add: r submitted_append)
next
  show "repl fw i h [] w =
     (Inr (), w @ [Printed input_prompt, Printed ([CHR 0x0A] @ ''Exiting.'' @ [CHR 0x0A])])"
    by (rule repl_end)
next
  assume a: "interactive a \<and> build_assistant fw cfg w = (Inr (i, h), w1) \<and>
    (\<forall>h t. \<exists>r h'. run fw h t = (Inr r, h')) \<and>
    (\<forall>l \<in> set ls. lower (strip l) \<noteq> ''exit'' \<and> lower (strip l) \<noteq> ''quit'') \<and>
    (tail = [] \<or> tail = EOFError # rest \<or> tail = KeyboardInterrupt # rest)"
  let ?inp = "map Line ls @ tail"
  let ?w = "w1 @ [Printed (banner @ [CHR 0x0A])]"
  from a have "build_assistant fw cfg w = (Inr (i, h), w1)" by simp
  then have w1: "w1 = w @ [Built (agents w)]" by (simp add: build_assistant_Inr)
  from a have m: "main fw cfg a ?inp w = repl fw i h ?inp ?w"
    by (simp add: main_def interactive_loop_ok)
  from a have u: "fst (repl fw i h ?inp ?w) = Inr () \<and>
      submitted (snd (repl fw i h ?inp ?w)) = submitted ?w @ map (\<lambda>l. (i, strip l)) ls \<and>
      (\<exists>tr. snd (repl fw i h ?inp ?w) =
              tr @ [Printed input_prompt, Printed ([CHR 0x0A] @ ''Exiting.'' @ [CHR 0x0A])])"
    by (intro repl_until_end [where rest = rest]) simp_all
  from u show f: "fst (main fw cfg a ?inp w) = Inr ()" by (simp add: m)
  show "exit_status (fst (main fw cfg a ?inp w)) = 0" by (simp add: f)
  from u show "submitted (snd (main fw cfg a ?inp w)) = submitted w @ map (\<lambda>l. (i, strip l)) ls"
    by (simp add: m w1 submitted_append)
  from u show "\<exists>tr. snd (main fw cfg a ?inp w) =
              tr @ [Printed input_prompt, Printed ([CHR 0x0A] @ ''Exiting.'' @ [CHR 0x0A])]"
    by (simp add: m)
qed

theorem end_of_input_ends_loop_witness:
  "repl echo_framework 0 5 [KeyboardInterrupt, Line ''late''] [] =
     (Inr (), [Printed input_prompt, Printed ([CHR 0x0A] @ ''Exiting.'' @ [CHR 0x0A])]) \<and>
   exit_status (fst (main echo_framework test_config \<lparr>interactive = True, prompt = []\<rparr>
     [Line ''hello'', EOFError, Line ''late''] [])) = 0 \<and>
   submitted (snd (main echo_framework test_config \<lparr>interactive = True, prompt = []\<rparr>
     [Line ''hello'', EOFError, Line ''late''] [])) = [(0, ''hello'')]"
proof -
  have e: "build_assistant echo_framework test_config [] = (Inr (0, 0), [Built 0])"
    by (simp add: build_assistant_def build_model_client_def echo_framework_def agents_def)
  have ok: "\<forall>h t. \<exists>r h'. run echo_framework h t = (Inr r, h')"
    by (simp add: echo_framework_def)
  have ns: "\<forall>l \<in> set [''hello'']. lower (strip l) \<noteq> ''exit'' \<and> lower (strip l) \<noteq> ''quit''"
    by (simp add: text_eval)
  have s: "strip ''hello'' = ''hello''" by (simp add: text_eval)
  show ?thesis
    using e ok ns s
      end_of_input_ends_loop [of KeyboardInterrupt echo_framework 0 5 "[Line ''late'']" "[]"
        "\<lparr>interactive = True, prompt = []\<rparr>" test_config "[Built 0]" "[]" "[]"]
      end_of_input_ends_loop [of EOFError echo_framework 0 0 "[Line ''late'']" "[]"
        "\<lparr>interactive = True, prompt = []\<rparr>" test_config "[Built 0]" "[''hello'']"
        "EOFError # [Line ''late'']"]
    by simp
qed

text \<open>
  C7. When the constructors of the framework return, each mode builds exactly one agent:
  one-shot mode builds one and submits its single turn to it; interactive mode builds
  one before the banner and the loop, the loop builds none, and every turn of the
  session goes to that instance. A run of \<open>main\<close> that selects a mode therefore has one
  agent, number 0, and all its turns are submitted to it.
\<close>

theorem one_agent_per_run:
  assumes "build_model_client fw cfg = Inr mc"
    and "AssistantAgent fw ''assistant'' mc (system_prompt cfg) = Inr h0"
  shows "agents (snd (one_shot fw cfg p w)) = agents w + 1 \<and>
         submitted (snd (one_shot fw cfg p w)) = submitted w @ [(agents w, p)] \<and>
         agents (snd (interactive_loop fw cfg inp w)) = agents w + 1 \<and>
         (\<exists>tr ts. snd (interactive_loop fw cfg inp w) =
                    w @ [Built (agents w), Printed (banner @ [CHR 0x0A])] @ tr \<and>
                  agents tr = 0 \<and> submitted tr = map (Pair (agents w)) ts) \<and>
         (\<exists>ts. submitted (snd (interactive_loop fw cfg inp w)) =
                 submitted w @ map (Pair (agents w)) ts) \<and>
         (interactive a \<or> prompt a \<noteq> [] \<longrightarrow>
            agents (snd (main fw cfg a inp [])) = 1 \<and>
            (\<forall>x \<in> set (submitted (snd (main fw cfg a inp []))). fst x = 0))"
proof -
  have b: "build_assistant fw cfg w = (Inr (agents w, h0), w @ [Built (agents w)])" for w
    using assms by (rule build_assistant_ok)
  obtain res h' where run: "run fw h0 p = (res, h')" by (cases "run fw h0 p")
  have os: "snd (one_shot fw cfg p w) = w @ [Built (agents w), Submitted (agents w) p]" for w
    using run by (cases res) (simp_all add: one_shot_def b)
  have il: "interactive_loop fw cfg inp w =
      repl fw (agents w) h0 inp (w @ [Built (agents w), Printed (banner @ [CHR 0x0A])])" for w
    using interactive_loop_ok [OF b, of inp w] by simp
  obtain tr ts where tr:
    "snd (repl fw (agents w) h0 inp (w @ [Built (agents w), Printed (banner @ [CHR 0x0A])])) =
       (w @ [Built (agents w), Printed (banner @ [CHR 0x0A])]) @ tr"
    "agents tr = 0" "submitted tr = map (Pair (agents w)) ts"
    using repl_trace [of fw "agents w" h0 inp "w @ [Built (agents w), Printed (banner @ [CHR 0x0A])]"]
    by blast
  have c1: "agents (snd (one_shot fw cfg p w)) = agents w + 1"
    by (simp add: os agents_append agents_simps)
  have c2: "submitted (snd (one_shot fw cfg p w)) = submitted w @ [(agents w, p)]"
    by (simp add: os submitted_append)
  have c3: "agents (snd (interactive_loop fw cfg inp w)) = agents w + 1" for w
    by (simp add: il agents_repl agents_append agents_simps)
  have c4: "\<exists>tr ts. snd (interactive_loop fw cfg inp w) =
                    w @ [Built (agents w), Printed (banner @ [CHR 0x0A])] @ tr \<and>
                  agents tr = 0 \<and> submitted tr = map (Pair (agents w)) ts"
    using tr by (auto simp add: il)
  have c5: "\<exists>ts. submitted (snd (interactive_loop fw cfg inp w)) =
                 submitted w @ map (Pair (agents w)) ts" for w
  proof -
    obtain tr ts where
      "snd (repl fw (agents w) h0 inp (w @ [Built (agents w), Printed (banner @ [CHR 0x0A])])) =
         (w @ [Built (agents w), Printed (banner @ [CHR 0x0A])]) @ tr"
      "submitted tr = map (Pair (agents w)) ts"
      using repl_trace [of fw "agents w" h0 inp
          "w @ [Built (agents w), Printed (banner @ [CHR 0x0A])]"]
      by blast
    then have "submitted (snd (interactive_loop fw cfg inp w)) =
        submitted w @ map (Pair (agents w)) ts"
      by (simp add: il submitted_append)
    then show ?thesis by blast
  qed
  have c6: "agents (snd (main fw cfg a inp [])) = 1 \<and>
            (\<forall>x \<in> set (submitted (snd (main fw cfg a inp []))). fst x = 0)"
    if m: "interactive a \<or> prompt a \<noteq> []"
  proof (cases "interactive a")
    case True
    then have "main fw cfg a inp [] = interactive_loop fw cfg inp []" by (simp add: main_def)
    then show ?thesis using c3 [of "[]"] c5 [of "[]"] by (auto simp add: agents_simps)
  next
    case False
    with m have ne: "prompt a \<noteq> []" by simp
    obtain res' h'' where run': "run fw h0 (prompt a) = (res', h'')"
      by (cases "run fw h0 (prompt a)")
    have "snd (main fw cfg a inp []) = [Built 0, Submitted 0 (prompt a)] \<or>
          (\<exists>s. snd (main fw cfg a inp []) = [Built 0, Submitted 0 (prompt a), Printed s])"
      using False ne run' b [of "[]"]
      by (cases res') (simp_all add: main_def one_shot_def print_def agents_simps)
    then show ?thesis by (auto simp add: agents_simps)
  qed
  from c1 c2 c3 [of w] c4 c5 [of w] c6 show ?thesis by blast
qed

theorem one_agent_per_run_witness:
  "agents (snd (one_shot echo_framework test_config ''hi'' [])) = 1 \<and>
   submitted (snd (one_shot echo_framework test_config ''hi'' [])) = [(0, ''hi'')] \<and>
   agents (snd (interactive_loop echo_framework test_config
     [Line ''a'', Line ''b'', Line ''exit''] [])) = 1 \<and>
   submitted (snd (interactive_loop echo_framework test_config
     [Line ''a'', Line ''b'', Line ''exit''] [])) = [(0, ''a''), (0, ''b'')] \<and>
   agents (snd (main echo_framework test_config \<lparr>interactive = True, prompt = []\<rparr>
     [Line ''a'', Line ''b'', Line ''exit''] [])) = 1"
proof -
  have b: "build_model_client echo_framework test_config = Inr ()"
    "AssistantAgent echo_framework ''assistant'' () (system_prompt test_config) = Inr 0"
    by (simp_all add: build_model_client_def echo_framework_def)
  have s: "submitted (snd (interactive_loop echo_framework test_config
     [Line ''a'', Line ''b'', Line ''exit''] [])) = [(0, ''a''), (0, ''b'')]"
    by (simp add: run_eval text_eval)
  show ?thesis
    using s one_agent_per_run [OF b, of "''hi''" "[]" "[Line ''a'', Line ''b'', Line ''exit'']"
        "\<lparr>interactive = True, prompt = []\<rparr>"]
    by (simp add: agents_simps)
qed

section \<open>Resolution of the configuration fields\<close>

text \<open>
  C8, as stated, fails for two fields. The system prompt is taken from the environment
  as it is, without trimming; the base URL is not trimmed of whitespace either, and
  loses its trailing slashes instead.
\<close>

theorem resolution_rule_counterexample:
  "SYSTEM_PROMPT (map_of [(''SYSTEM_PROMPT'', '' Be brief. '')]) \<noteq>
     spec_resolve (map_of [(''SYSTEM_PROMPT'', '' Be brief. '')]) ''SYSTEM_PROMPT''
       default_system_prompt \<and>
   BASE_URL (map_of [(''GOOGLE_OPENAI_COMPAT_BASE_URL'', '' https://h/v1/'')]) \<noteq>
     spec_resolve (map_of [(''GOOGLE_OPENAI_COMPAT_BASE_URL'', '' https://h/v1/'')])
       ''GOOGLE_OPENAI_COMPAT_BASE_URL''
       ''https://generativelanguage.googleapis.com/v1beta/openai''"
  by (simp add: SYSTEM_PROMPT_def BASE_URL_def spec_resolve_def getenv_def py_or_def
        rstrip_def text_eval)

text \<open>
  C8, amended. The API key and the model name follow the rule: the trimmed environment
  value when present and non-empty, else the default (the empty string for the API
  key); a whitespace-only value counts as non-empty and gives the empty string. The
  base URL is the environment value when present and non-empty, else the
  default, with trailing slashes removed and whitespace kept. The system prompt is the
  environment value as it is when present and non-empty, else the default. Max tokens
  is the integer that \<open>int\<close> reads from the environment value as it stands (not trimmed
  first) when the variable is set and parses, else 1024. Temperature is the float that
  \<open>float\<close> reads from the environment value as it stands when the variable is set and
  parses, else 0.3 (given that \<open>float\<close> reads the text \<open>0.3\<close> as that number).
\<close>

theorem fields_resolved_each_by_its_own_rule:
  "GOOGLE_API_KEY env = spec_resolve env ''GOOGLE_API_KEY'' [] \<and>
   MODEL_NAME env = spec_resolve env ''GOOGLE_MODEL'' ''gemini-2.0-flash'' \<and>
   BASE_URL env =
     rstrip (case env ''GOOGLE_OPENAI_COMPAT_BASE_URL'' of
               None \<Rightarrow> ''https://generativelanguage.googleapis.com/v1beta/openai''
             | Some v \<Rightarrow>
                 if v = [] then ''https://generativelanguage.googleapis.com/v1beta/openai''
                 else v) ''/'' \<and>
   SYSTEM_PROMPT env =
     (case env ''SYSTEM_PROMPT'' of
        None \<Rightarrow> default_system_prompt
      | Some v \<Rightarrow> if v = [] then default_system_prompt else v) \<and>
   MAX_TOKENS env =
     (case env ''MAX_TOKENS'' of
        None \<Rightarrow> 1024
      | Some v \<Rightarrow> (case py_int v of None \<Rightarrow> 1024 | Some n \<Rightarrow> n)) \<and>
   (float fl ''0.3'' = Some (lit_0_3 fl) \<longrightarrow>
      TEMPERATURE fl env =
        (case env ''TEMPERATURE'' of
           None \<Rightarrow> lit_0_3 fl
         | Some v \<Rightarrow> (case float fl v of None \<Rightarrow> lit_0_3 fl | Some x \<Rightarrow> x)))"
proof (intro conjI impI)
  show "GOOGLE_API_KEY env = spec_resolve env ''GOOGLE_API_KEY'' []"
    by (simp add: GOOGLE_API_KEY_def spec_resolve_def getenv_default_def strip_Nil
          split: option.splits)
next
  have d: "strip ''gemini-2.0-flash'' = ''gemini-2.0-flash''" by (simp add: text_eval)
  show "MODEL_NAME env = spec_resolve env ''GOOGLE_MODEL'' ''gemini-2.0-flash''"
    by (simp add: MODEL_NAME_def spec_resolve_def getenv_def py_or_def d split: option.splits)
next
  show "BASE_URL env =
     rstrip (case env ''GOOGLE_OPENAI_COMPAT_BASE_URL'' of
               None \<Rightarrow> ''https://generativelanguage.googleapis.com/v1beta/openai''
             | Some v \<Rightarrow>
                 if v = [] then ''https://generativelanguage.googleapis.com/v1beta/openai''
                 else v) ''/''"
    by (simp add: BASE_URL_def getenv_def py_or_def)
next
  show "SYSTEM_PROMPT env =
     (case env ''SYSTEM_PROMPT'' of
        None \<Rightarrow> default_system_prompt
      | Some v \<Rightarrow> if v = [] then default_system_prompt else v)"
    by (simp add: SYSTEM_PROMPT_def getenv_def py_or_def)
next
  have d: "py_int ''1024'' = Some 1024" by (simp add: int_eval)
  show "MAX_TOKENS env =
     (case env ''MAX_TOKENS'' of
        None \<Rightarrow> 1024
      | Some v \<Rightarrow> (case py_int v of None \<Rightarrow> 1024 | Some n \<Rightarrow> n))"
    by (simp add: MAX_TOKENS_def getenv_default_def d split: option.splits)
next
  assume "float fl ''0.3'' = Some (lit_0_3 fl)"
  then show "TEMPERATURE fl env =
        (case env ''TEMPERATURE'' of
           None \<Rightarrow> lit_0_3 fl
         | Some v \<Rightarrow> (case float fl v of None \<Rightarrow> lit_0_3 fl | Some x \<Rightarrow> x))"
    by (simp add: TEMPERATURE_def getenv_default_def split: option.splits)
qed

theorem fields_resolved_each_by_its_own_rule_witness:
  "GOOGLE_API_KEY (map_of [(''GOOGLE_API_KEY'', '' k ''), (''GOOGLE_MODEL'', ''  ''),
      (''SYSTEM_PROMPT'', '' Be brief. ''), (''GOOGLE_OPENAI_COMPAT_BASE_URL'', '' https://h/v1//''),
      (''MAX_TOKENS'', '' 64 ''), (''TEMPERATURE'', '' 0.7 '')]) = ''k'' \<and>
   MODEL_NAME (map_of [(''GOOGLE_API_KEY'', '' k ''), (''GOOGLE_MODEL'', ''  ''),
      (''SYSTEM_PROMPT'', '' Be brief. ''), (''GOOGLE_OPENAI_COMPAT_BASE_URL'', '' https://h/v1//''),
      (''MAX_TOKENS'', '' 64 ''), (''TEMPERATURE'', '' 0.7 '')]) = [] \<and>
   BASE_URL (map_of [(''GOOGLE_API_KEY'', '' k ''), (''GOOGLE_MODEL'', ''  ''),
      (''SYSTEM_PROMPT'', '' Be brief. ''), (''GOOGLE_OPENAI_COMPAT_BASE_URL'', '' https://h/v1//''),
      (''MAX_TOKENS'', '' 64 ''), (''TEMPERATURE'', '' 0.7 '')]) = '' https://h/v1'' \<and>
   SYSTEM_PROMPT (map_of [(''GOOGLE_API_KEY'', '' k ''), (''GOOGLE_MODEL'', ''  ''),
      (''SYSTEM_PROMPT'', '' Be brief. ''), (''GOOGLE_OPENAI_COMPAT_BASE_URL'', '' https://h/v1//''),
      (''MAX_TOKENS'', '' 64 ''), (''TEMPERATURE'', '' 0.7 '')]) = '' Be brief. '' \<and>
   MAX_TOKENS (map_of [(''GOOGLE_API_KEY'', '' k ''), (''GOOGLE_MODEL'', ''  ''),
      (''SYSTEM_PROMPT'', '' Be brief. ''), (''GOOGLE_OPENAI_COMPAT_BASE_URL'', '' https://h/v1//''),
      (''MAX_TOKENS'', '' 64 ''), (''TEMPERATURE'', '' 0.7 '')]) = 64 \<and>
   TEMPERATURE tenths (map_of [(''GOOGLE_API_KEY'', '' k ''), (''GOOGLE_MODEL'', ''  ''),
      (''SYSTEM_PROMPT'', '' Be brief. ''), (''GOOGLE_OPENAI_COMPAT_BASE_URL'', '' https://h/v1//''),
      (''MAX_TOKENS'', '' 64 ''), (''TEMPERATURE'', '' 0.7 '')]) = 7"
proof -
  have f: "float tenths ''0.3'' = Some (lit_0_3 tenths)" "float tenths '' 0.7 '' = Some 7"
    by (simp_all add: tenths_def c_strip_def c_isspace_def)
  have i: "py_int '' 64 '' = Some 64" by (simp add: int_eval)
  show ?thesis
    using f i
      fields_resolved_each_by_its_own_rule [of "map_of [(''GOOGLE_API_KEY'', '' k ''),
        (''GOOGLE_MODEL'', ''  ''), (''SYSTEM_PROMPT'', '' Be brief. ''),
        (''GOOGLE_OPENAI_COMPAT_BASE_URL'', '' https://h/v1//''),
        (''MAX_TOKENS'', '' 64 ''), (''TEMPERATURE'', '' 0.7 '')]" tenths]
    by (simp add: spec_resolve_def rstrip_def text_eval)
qed

section \<open>The range of max tokens\<close>

text \<open>
  C9, as stated, fails: the value of the max-tokens variable only has to parse as an
  integer, and \<open>int\<close> accepts zero and negative numbers. With \<open>MAX_TOKENS=0\<close> the
  resolved value is 0, which is not strictly greater than zero.
\<close>

theorem max_tokens_not_positive_counterexample:
  "\<not> 0 < MAX_TOKENS (map_of [(''MAX_TOKENS'', ''0'')])"
  by (simp add: MAX_TOKENS_def getenv_default_def int_eval)

text \<open>
  C9, amended. The resolved max-tokens value is an integer: the default 1024 when the
  variable is unset or its value does not parse, and the parsed value otherwise,
  whatever its sign. It is strictly greater than zero exactly when the default is used
  or the parsed value is itself positive.
\<close>

theorem max_tokens_default_or_parsed:
  "(env ''MAX_TOKENS'' = None \<longrightarrow> MAX_TOKENS env = 1024) \<and>
   (\<forall>v. env ''MAX_TOKENS'' = Some v \<and> py_int v = None \<longrightarrow> MAX_TOKENS env = 1024) \<and>
   (\<forall>v n. env ''MAX_TOKENS'' = Some v \<and> py_int v = Some n \<longrightarrow> MAX_TOKENS env = n) \<and>
   (0 < MAX_TOKENS env \<longleftrightarrow>
      (\<forall>v n. env ''MAX_TOKENS'' = Some v \<and> py_int v = Some n \<longrightarrow> 0 < n))"
proof -
  have d: "py_int ''1024'' = Some 1024" by (simp add: int_eval)
  show ?thesis
    by (cases "env ''MAX_TOKENS''")
       (auto simp add: MAX_TOKENS_def getenv_default_def d split: option.splits)
qed

theorem max_tokens_default_or_parsed_witness:
  "MAX_TOKENS (map_of []) = 1024 \<and>
   MAX_TOKENS (map_of [(''MAX_TOKENS'', ''many'')]) = 1024 \<and>
   MAX_TOKENS (map_of [(''MAX_TOKENS'', '' 2_048 '')]) = 2048 \<and>
   MAX_TOKENS (map_of [(''MAX_TOKENS'', ''-5'')]) = - 5 \<and>
   MAX_TOKENS (map_of [(''MAX_TOKENS'', [CHR 0x1C, CHR ''5'', CHR 0x1F])]) = 1024"
proof -
  have p0: "py_int [CHR 0x1C, CHR ''5'', CHR 0x1F] = None" by (simp add: int_eval)
  have p1: "py_int ''many'' = None" by (simp add: int_eval)
  have p2: "py_int '' 2_048 '' = Some 2048" by (simp add: int_eval)
  have p3: "py_int ''-5'' = Some (- 5)" by (simp add: int_eval)
  show ?thesis
    using max_tokens_default_or_parsed [of "map_of []"]
      max_tokens_default_or_parsed [of "map_of [(''MAX_TOKENS'', ''many'')]"]
      max_tokens_default_or_parsed [of "map_of [(''MAX_TOKENS'', '' 2_048 '')]"]
      max_tokens_default_or_parsed [of "map_of [(''MAX_TOKENS'', ''-5'')]"]
      max_tokens_default_or_parsed [of "map_of [(''MAX_TOKENS'', [CHR 0x1C, CHR ''5'', CHR 0x1F])]"]
      p0 p1 p2 p3
    by simp
qed

section \<open>Blank lines in the interactive loop\<close>

text \<open>
  C10. A line that is empty or consists of whitespace only is trimmed to the empty
  string, which is not a sentinel and is not skipped: the empty string is submitted to
  the agent as a turn, and the reply is printed and the loop goes on, by the same
  equation as for any other line; if the agent raises, the exception ends the run.
\<close>

theorem blank_line_is_a_turn:
  assumes "\<forall>c \<in> set l. isspace c"
  shows "strip l = [] \<and> lower (strip l) \<noteq> ''exit'' \<and> lower (strip l) \<noteq> ''quit'' \<and>
         (\<forall>r h'. run fw h [] = (Inr r, h') \<longrightarrow>
            repl fw i h (Line l # rest) w =
              repl fw i h' rest
                (w @ [Printed input_prompt, Submitted i [],
                      Printed ([CHR 0x0A] @ ''Assistant: '' @ reply_of r @ [CHR 0x0A])])) \<and>
         (\<forall>e h'. run fw h [] = (Inl e, h') \<longrightarrow>
            repl fw i h (Line l # rest) w =
              (Inl (Exception e), w @ [Printed input_prompt, Submitted i []]))"
proof -
  from assms have s: "strip l = []" by (simp add: strip_eq_Nil)
  then have ns: "lower (strip l) \<noteq> ''exit''" "lower (strip l) \<noteq> ''quit''"
    by (simp_all add: lower_def)
  show ?thesis
    using s ns repl_turn [OF ns, of fw h _ _ i rest w] repl_raise [OF ns, of fw h _ _ i rest w]
    by simp
qed

theorem blank_line_is_a_turn_witness:
  "repl echo_framework 0 0 [Line ''   '', Line []] [] =
     (Inr (),
      [Printed input_prompt, Submitted 0 [],
       Printed ([CHR 0x0A] @ ''Assistant: echo: '' @ [CHR 0x0A]),
       Printed input_prompt, Submitted 0 [],
       Printed ([CHR 0x0A] @ ''Assistant: echo: '' @ [CHR 0x0A]),
       Printed input_prompt, Printed ([CHR 0x0A] @ ''Exiting.'' @ [CHR 0x0A])])"
proof -
  have h1: "\<forall>c \<in> set ''   ''. isspace c" by (simp add: isspace_def)
  have h2: "\<forall>c \<in> set ([] :: string). isspace c" by simp
  have r: "run echo_framework n [] = (Inr \<lparr>content = Some ''echo: '', str = ''TaskResult''\<rparr>, Suc n)"
    for n by (simp add: echo_framework_def)
  show ?thesis
    using blank_line_is_a_turn [OF h1, of echo_framework 0 0 "[Line []]" "[]"]
      blank_line_is_a_turn [OF h2, of echo_framework "Suc 0" 0 "[]"
        "[Printed input_prompt, Submitted 0 [],
          Printed ([CHR 0x0A] @ ''Assistant: echo: '' @ [CHR 0x0A])]"]
      r [of 0] r [of "Suc 0"]
    by (simp add: reply_of_def repl_end)
qed

end
